theory Spec2Isabelle
  imports Main "HOL-Library.AList"
begin

section \<open>Python values and exceptions\<close>

text \<open>
  The module \<^verbatim>\<open>database.py\<close> is dynamically typed: its checks are
  \<^verbatim>\<open>isinstance\<close> tests on arbitrary arguments. The values it can receive are
  embedded in one datatype. \<^verbatim>\<open>TransPair\<close> and \<^verbatim>\<open>TransList\<close> both derive from
  \<^verbatim>\<open>collections.UserList\<close>, a wrapper around a plain list held in the attribute
  \<^verbatim>\<open>data\<close>; a list-like object is therefore its class together with its data.
  Dictionaries are insertion-ordered association lists with string keys (keyword
  arguments, JSON objects and the metadata block all have string keys). Floats are not
  modelled.
\<close>

datatype error =
  TypeError | ValueError | KeyError | IndexError | InvalidFile | UnicodeEncodeError

datatype seqkind = KList | KTransPair | KTransList

datatype pyval =
    VNone
  | VBool bool
  | VInt int
  | VStr string
  | VSeq seqkind "pyval list"
  | VDict "(string \<times> pyval) list"

text \<open>Raising aborts the rest of the statement sequence: the error monad on sums.\<close>

definition ebind :: "error + 'a \<Rightarrow> ('a \<Rightarrow> error + 'b) \<Rightarrow> error + 'b" where
  "ebind m f = (case m of Inl e \<Rightarrow> Inl e | Inr x \<Rightarrow> f x)"

text \<open>A \<^verbatim>\<open>for\<close> loop whose body may raise, threading the mutated object.\<close>

fun foldM :: "('s \<Rightarrow> 'a \<Rightarrow> error + 's) \<Rightarrow> 's \<Rightarrow> 'a list \<Rightarrow> error + 's" where
  "foldM f s [] = Inr s"
| "foldM f s (x # xs) = (case f s x of Inl e \<Rightarrow> Inl e | Inr s' \<Rightarrow> foldM f s' xs)"

fun sequence :: "(error + 'a) list \<Rightarrow> error + 'a list" where
  "sequence [] = Inr []"
| "sequence (m # ms) =
     (case m of Inl e \<Rightarrow> Inl e
      | Inr x \<Rightarrow> (case sequence ms of Inl e \<Rightarrow> Inl e | Inr xs \<Rightarrow> Inr (x # xs)))"

subsection \<open>Built-in operations the module relies on\<close>

text \<open>\<^verbatim>\<open>isinstance(x, str)\<close>, \<^verbatim>\<open>isinstance(x, TransPair)\<close>, \<^verbatim>\<open>isinstance(x, TransList)\<close>.\<close>

fun is_str :: "pyval \<Rightarrow> bool" where
  "is_str (VStr s) = True"
| "is_str _ = False"

fun is_TransPair :: "pyval \<Rightarrow> bool" where
  "is_TransPair (VSeq k xs) = (k = KTransPair)"
| "is_TransPair _ = False"

fun is_TransList :: "pyval \<Rightarrow> bool" where
  "is_TransList (VSeq k xs) = (k = KTransList)"
| "is_TransList _ = False"

text \<open>Truth value testing, and \<^verbatim>\<open>x and y\<close>, which yields one of its operands.\<close>

fun truthy :: "pyval \<Rightarrow> bool" where
  "truthy VNone = False"
| "truthy (VBool b) = b"
| "truthy (VInt i) = (i \<noteq> 0)"
| "truthy (VStr s) = (s \<noteq> [])"
| "truthy (VSeq k xs) = (xs \<noteq> [])"
| "truthy (VDict d) = (d \<noteq> [])"

definition py_and :: "pyval \<Rightarrow> pyval \<Rightarrow> pyval" where
  "py_and x y = (if truthy x then y else x)"

text \<open>
  The operator \<^verbatim>\<open>==\<close>. A bool is an int; a list and a \<^verbatim>\<open>UserList\<close> (of any
  subclass) compare by their data, element by element; dictionaries compare by keys and
  values whatever the order; values of unrelated types are unequal.
\<close>

function (sequential) py_eq :: "pyval \<Rightarrow> pyval \<Rightarrow> bool" where
  "py_eq VNone VNone = True"
| "py_eq (VBool a) (VBool b) = (a = b)"
| "py_eq (VBool a) (VInt b) = ((if a then 1 else 0) = b)"
| "py_eq (VInt a) (VBool b) = (a = (if b then 1 else 0))"
| "py_eq (VInt a) (VInt b) = (a = b)"
| "py_eq (VStr a) (VStr b) = (a = b)"
| "py_eq (VSeq k xs) (VSeq k' ys) =
     (length xs = length ys \<and> list_all (\<lambda>(x, y). py_eq x y) (zip xs ys))"
| "py_eq (VDict a) (VDict b) =
     (length a = length b \<and>
      list_all (\<lambda>(k, v). case map_of b k of None \<Rightarrow> False | Some w \<Rightarrow> py_eq v w) a)"
| "py_eq _ _ = False"
  by pat_completeness auto

lemma size_zip_left:
  "(x, y) \<in> set (zip xs ys) \<Longrightarrow> size (x::pyval) < Suc (size_list size xs)"
proof (induction xs arbitrary: ys)
  case Nil
  then show ?case by simp
next
  case (Cons a xs)
  then show ?case by (cases ys) fastforce+
qed

lemma size_dict_value:
  "(k, v) \<in> set a \<Longrightarrow> size (v::pyval) < Suc (size_list (size_prod (\<lambda>x. 0) size) a)"
  by (induction a) auto

termination py_eq
  by (relation "measure (\<lambda>(x, y). size x)") (auto dest: size_zip_left size_dict_value)

text \<open>\<^verbatim>\<open>x in xs\<close> on a list: some element is equal to \<^verbatim>\<open>x\<close>.\<close>

definition list_contains :: "pyval list \<Rightarrow> pyval \<Rightarrow> bool" where
  "list_contains xs x = list_ex (\<lambda>e. py_eq e x) xs"

text \<open>
  Indexing a list: a negative index counts from the end, and an index outside the list
  raises \<^verbatim>\<open>IndexError\<close>.
\<close>

definition list_index :: "'a list \<Rightarrow> int \<Rightarrow> error + 'a" where
  "list_index xs i =
     (let n = int (length xs); j = (if i < 0 then i + n else i)
      in if 0 \<le> j \<and> j < n then Inr (xs ! nat j) else Inl IndexError)"

text \<open>
  \<^verbatim>\<open>list.pop(i)\<close> of the built-in list: the removed element and the remaining list.
\<close>

definition list_pop :: "'a list \<Rightarrow> int \<Rightarrow> error + ('a \<times> 'a list)" where
  "list_pop xs i =
     (let n = int (length xs); j = (if i < 0 then i + n else i)
      in if 0 \<le> j \<and> j < n then Inr (xs ! nat j, take (nat j) xs @ drop (Suc (nat j)) xs)
         else Inl IndexError)"

text \<open>
  Subscription \<^verbatim>\<open>c[k]\<close>: a dictionary raises \<^verbatim>\<open>KeyError\<close> on a missing key and
  \<^verbatim>\<open>TypeError\<close> on an unhashable one; lists, \<^verbatim>\<open>UserList\<close>s and strings take
  integer indices; nothing else is subscriptable.
\<close>

fun py_getitem :: "pyval \<Rightarrow> pyval \<Rightarrow> error + pyval" where
  "py_getitem (VDict d) (VStr k) = (case map_of d k of None \<Rightarrow> Inl KeyError | Some v \<Rightarrow> Inr v)"
| "py_getitem (VDict d) (VSeq k xs) = Inl TypeError"
| "py_getitem (VDict d) (VDict d') = Inl TypeError"
| "py_getitem (VDict d) _ = Inl KeyError"
| "py_getitem (VSeq k xs) (VInt i) = list_index xs i"
| "py_getitem (VSeq k xs) (VBool b) = list_index xs (if b then 1 else 0)"
| "py_getitem (VSeq k xs) _ = Inl TypeError"
| "py_getitem (VStr s) (VInt i) = ebind (list_index s i) (\<lambda>c. Inr (VStr [c]))"
| "py_getitem (VStr s) (VBool b) = ebind (list_index s (if b then 1 else 0)) (\<lambda>c. Inr (VStr [c]))"
| "py_getitem _ _ = Inl TypeError"

text \<open>
  Iteration: a list-like object yields its elements, a string its characters, a
  dictionary its keys; nothing else is iterable.
\<close>

fun py_iter :: "pyval \<Rightarrow> error + pyval list" where
  "py_iter (VSeq k xs) = Inr xs"
| "py_iter (VStr s) = Inr (map (\<lambda>c. VStr [c]) s)"
| "py_iter (VDict d) = Inr (map (\<lambda>kv. VStr (fst kv)) d)"
| "py_iter _ = Inl TypeError"

section \<open>TransPair\<close>

text \<open>
  \<^verbatim>\<open>TransPair.__init__(self, item0, item1)\<close>: the two guards of the source, in
  their order, then the data \<^verbatim>\<open>[item0, item1]\<close>.
\<close>

definition TransPair_init :: "pyval \<Rightarrow> pyval \<Rightarrow> error + pyval" where
  "TransPair_init item0 item1 =
     (if \<not> is_str item0 \<and> \<not> is_str item1 then Inl TypeError
      else if py_eq (py_and item0 item1) (VStr []) then Inl ValueError
      else Inr (VSeq KTransPair [item0, item1]))"

section \<open>TransList\<close>

text \<open>
  A \<^verbatim>\<open>TransList\<close> object is \<open>VSeq KTransList data\<close>; its methods are given on
  \<open>data\<close> and return the updated data.

  \<^verbatim>\<open>TransList.append(self, tp_key)\<close>.
\<close>

definition TransList_append :: "pyval list \<Rightarrow> pyval \<Rightarrow> error + pyval list" where
  "TransList_append self tp_key =
     (if \<not> is_TransPair tp_key then Inl TypeError
      else if list_contains self tp_key then Inl KeyError
      else Inr (self @ [tp_key]))"

text \<open>\<^verbatim>\<open>TransList.__init__(self, *args)\<close>: an empty list, then one append per argument.\<close>

definition TransList_init :: "pyval list \<Rightarrow> error + pyval list" where
  "TransList_init args = foldM TransList_append [] args"

text \<open>
  \<^verbatim>\<open>TransList.pop(self, index=-1)\<close>: the body is the single expression statement
  \<^verbatim>\<open>super(TransList, self).pop(index)\<close>, so the method returns \<^verbatim>\<open>None\<close>. The
  result is the returned value and the updated data.
\<close>

definition TransList_pop :: "pyval list \<Rightarrow> int \<Rightarrow> error + (pyval \<times> pyval list)" where
  "TransList_pop self index =
     (case list_pop self index of
        Inl e \<Rightarrow> Inl e
      | Inr (removed, self') \<Rightarrow> Inr (VNone, self'))"

definition TransList_pop_default :: "pyval list \<Rightarrow> error + (pyval \<times> pyval list)" where
  "TransList_pop_default self = TransList_pop self (- 1)"

text \<open>
  \<^verbatim>\<open>TransList.get_translation(self, sentence, hint=0)\<close>. Each of the two loops either
  executes its \<^verbatim>\<open>return\<close> (\<open>Some\<close>) or runs to the end of the list
  (\<open>None\<close>); falling off the end of the method returns \<^verbatim>\<open>None\<close>.
\<close>

fun search_first :: "pyval list \<Rightarrow> pyval \<Rightarrow> error + pyval option" where
  "search_first [] sentence = Inr None"
| "search_first (transpair # rest) sentence =
     ebind (py_getitem transpair (VInt 0)) (\<lambda>x.
       if py_eq x sentence then ebind (py_getitem transpair (VInt 1)) (\<lambda>y. Inr (Some y))
       else search_first rest sentence)"

fun search_second :: "pyval list \<Rightarrow> pyval \<Rightarrow> error + pyval option" where
  "search_second [] sentence = Inr None"
| "search_second (transpair # rest) sentence =
     ebind (py_getitem transpair (VInt 1)) (\<lambda>x.
       if py_eq x sentence then ebind (py_getitem transpair (VInt 0)) (\<lambda>y. Inr (Some y))
       else search_second rest sentence)"

definition TransList_get_translation :: "pyval list \<Rightarrow> pyval \<Rightarrow> pyval \<Rightarrow> error + pyval" where
  "TransList_get_translation self sentence hint =
     ebind (if py_eq hint (VInt 0) \<or> py_eq hint (VInt 1) then search_first self sentence
            else Inr None)
       (\<lambda>r1. case r1 of
          Some y \<Rightarrow> Inr y
        | None \<Rightarrow>
            ebind (if py_eq hint (VInt 0) \<or> py_eq hint (VInt 2) then search_second self sentence
                   else Inr None)
              (\<lambda>r2. case r2 of Some y \<Rightarrow> Inr y | None \<Rightarrow> Inr VNone))"

section \<open>TransDatabase\<close>

text \<open>
  A \<^verbatim>\<open>TransDatabase\<close> is a \<^verbatim>\<open>dict\<close> (the named lists, in insertion order) with
  the attribute \<^verbatim>\<open>info\<close>, itself a dictionary.
\<close>

record TransDatabase =
  items :: "(string \<times> pyval) list"
  info :: "(string \<times> pyval) list"

definition INFO_TITLE :: string where
  "INFO_TITLE = ''info''"

definition LANGS :: string where
  "LANGS = ''language''"

text \<open>
  \<^verbatim>\<open>TransDatabase.__chk_lang_attr(fl, sl)\<close>. The built-in \<^verbatim>\<open>str\<close>, applied to a
  value that is not a string, is the parameter \<open>str_of\<close>.
\<close>

definition chk_lang_attr :: "(pyval \<Rightarrow> string) \<Rightarrow> pyval \<Rightarrow> pyval \<Rightarrow> error + pyval" where
  "chk_lang_attr str_of fl sl =
     (let fl' = (case fl of VStr s \<Rightarrow> s | _ \<Rightarrow> str_of fl);
          sl' = (case sl of VStr s \<Rightarrow> s | _ \<Rightarrow> str_of sl)
      in if fl' = sl' then Inl ValueError else Inr (VSeq KList [VStr fl', VStr sl']))"

text \<open>
  \<^verbatim>\<open>TransDatabase.__setitem__(self, trans_list_name, trans_list)\<close>. The second branch
  of the source builds a \<^verbatim>\<open>TypeError\<close> object without raising it: the statement has
  no effect and the method returns normally.
\<close>

definition TransDatabase_setitem ::
  "TransDatabase \<Rightarrow> pyval \<Rightarrow> pyval \<Rightarrow> error + TransDatabase" where
  "TransDatabase_setitem self trans_list_name trans_list =
     (case trans_list_name of
        VStr name \<Rightarrow>
          if \<not> is_TransList trans_list then Inr self
          else Inr (self\<lparr>items := AList.update name trans_list (items self)\<rparr>)
      | _ \<Rightarrow> Inl TypeError)"

text \<open>
  \<^verbatim>\<open>key in self\<close> on the dictionary: an unhashable key (a list, a \<^verbatim>\<open>UserList\<close>, a
  dictionary) raises \<^verbatim>\<open>TypeError\<close>; the keys present are strings.
\<close>

fun dict_contains :: "(string \<times> pyval) list \<Rightarrow> pyval \<Rightarrow> error + bool" where
  "dict_contains d (VStr k) = Inr (k \<in> set (map fst d))"
| "dict_contains d (VSeq k xs) = Inl TypeError"
| "dict_contains d (VDict d') = Inl TypeError"
| "dict_contains d _ = Inr False"

text \<open>
  \<^verbatim>\<open>TransDatabase.add(self, trans_list_name, trans_list=None)\<close>. In the source the
  call of \<^verbatim>\<open>__setitem__\<close> is the \<^verbatim>\<open>else\<close> branch of the test
  \<^verbatim>\<open>trans_list is None\<close>; the \<^verbatim>\<open>TransList()\<close> created in the other branch is
  bound to a local name only.
\<close>

definition TransDatabase_add ::
  "TransDatabase \<Rightarrow> pyval \<Rightarrow> pyval \<Rightarrow> error + TransDatabase" where
  "TransDatabase_add self trans_list_name trans_list =
     ebind (dict_contains (items self) trans_list_name) (\<lambda>present.
       if present then Inl KeyError
       else if trans_list = VNone then Inr self
       else TransDatabase_setitem self trans_list_name trans_list)"

definition TransDatabase_add_default :: "TransDatabase \<Rightarrow> pyval \<Rightarrow> error + TransDatabase" where
  "TransDatabase_add_default self trans_list_name = TransDatabase_add self trans_list_name VNone"

text \<open>
  \<^verbatim>\<open>TransDatabase.__init__(self, first_lang=None, second_lang=None, **kwargs)\<close>.
  The inner loop builds one \<^verbatim>\<open>TransList\<close> from a raw sequence of entries.
\<close>

definition build_tlist :: "pyval \<Rightarrow> error + pyval list" where
  "build_tlist decor_tlist =
     ebind (py_iter decor_tlist) (\<lambda>tpairs.
       foldM (\<lambda>tlist tpair.
           ebind (py_getitem tpair (VInt 0)) (\<lambda>a.
           ebind (py_getitem tpair (VInt 1)) (\<lambda>b.
           ebind (TransPair_init a b) (\<lambda>tp.
           TransList_append tlist tp))))
         [] tpairs)"

definition init_info ::
  "(pyval \<Rightarrow> string) \<Rightarrow> pyval \<Rightarrow> pyval \<Rightarrow> (string \<times> pyval) list
     \<Rightarrow> error + ((string \<times> pyval) list \<times> (string \<times> pyval) list)" where
  "init_info str_of first_lang second_lang kwargs =
     (case map_of kwargs INFO_TITLE of
        Some i \<Rightarrow>
          ebind (chk_lang_attr str_of first_lang second_lang) (\<lambda>langs.
            case i of
              VDict d \<Rightarrow> Inr (AList.update LANGS langs d, AList.delete INFO_TITLE kwargs)
            | _ \<Rightarrow> Inl TypeError)
      | None \<Rightarrow>
          if first_lang = VNone \<or> second_lang = VNone then Inl TypeError
          else ebind (chk_lang_attr str_of first_lang second_lang) (\<lambda>langs.
            Inr ([(LANGS, langs),
                  (''creator'', VStr ''Daniel Daninsky''),
                  (''script'', VStr ''duobreaker v0.1'')], kwargs)))"

definition TransDatabase_init ::
  "(pyval \<Rightarrow> string) \<Rightarrow> pyval \<Rightarrow> pyval \<Rightarrow> (string \<times> pyval) list \<Rightarrow> error + TransDatabase" where
  "TransDatabase_init str_of first_lang second_lang kwargs =
     ebind (init_info str_of first_lang second_lang kwargs) (\<lambda>(i, kwargs').
       foldM (\<lambda>self (tlist_name, decor_tlist).
           ebind (build_tlist decor_tlist) (\<lambda>tlist.
           TransDatabase_add self (VStr tlist_name) (VSeq KTransList tlist)))
         \<lparr>items = [], info = i\<rparr> kwargs')"

text \<open>\<^verbatim>\<open>TransDatabase.change_lang_attrs(self, first_lang, second_lang)\<close>.\<close>

definition change_lang_attrs :: "TransDatabase \<Rightarrow> pyval \<Rightarrow> pyval \<Rightarrow> error + TransDatabase" where
  "change_lang_attrs self first_lang second_lang =
     ebind (TransPair_init first_lang second_lang) (\<lambda>tp.
       Inr (self\<lparr>info := AList.update ''language'' tp (info self)\<rparr>))"

text \<open>The two identifiers stored under \<^verbatim>\<open>info["language"]\<close>, when there are two.\<close>

definition languages :: "TransDatabase \<Rightarrow> (pyval \<times> pyval) option" where
  "languages self =
     (case map_of (info self) LANGS of
        Some (VSeq k [a, b]) \<Rightarrow> Some (a, b)
      | _ \<Rightarrow> None)"

section \<open>Codecs\<close>

subsection \<open>JSON documents\<close>

text \<open>
  The module \<^verbatim>\<open>json\<close> is a library outside the repository. A document is kept
  as its tree: \<^verbatim>\<open>json.dump\<close> maps a Python value to the document it denotes
  (\<^verbatim>\<open>None\<close>, booleans, integers, strings, lists and dictionaries only; the
  \<^verbatim>\<open>UserList\<close> subclasses are not serialisable and raise \<^verbatim>\<open>TypeError\<close>), and
  \<^verbatim>\<open>json.load\<close> maps a document back, arrays to lists and objects to
  dictionaries. The layout of the text (indentation, separators) is below this level;
  which characters reach the file is not, see \<open>write_str\<close>.
\<close>

datatype json =
    JNull
  | JBool bool
  | JInt int
  | JStr string
  | JArr "json list"
  | JObj "(string \<times> json) list"

text \<open>
  \<^verbatim>\<open>__json_save\<close> opens the file with \<^verbatim>\<open>open(file, "w")\<close>, naming no
  encoding, and dumps with \<^verbatim>\<open>ensure_ascii=False\<close>: the characters of every string
  and key are written as they are and encoded in the default text encoding of the
  platform. The parameter \<open>encodable\<close> tells which characters beyond ASCII that encoding
  has (ASCII itself is taken to be in it); writing any other character raises
  \<^verbatim>\<open>UnicodeEncodeError\<close>. A character is its code point, here up to 255.
\<close>

definition write_str :: "(char \<Rightarrow> bool) \<Rightarrow> string \<Rightarrow> error + string" where
  "write_str encodable s =
     (if list_all (\<lambda>c. (of_char c :: nat) < 128 \<or> encodable c) s then Inr s
      else Inl UnicodeEncodeError)"

text \<open>
  Two default encodings: ASCII has no character beyond ASCII, UTF-8 has every
  character.
\<close>

definition ascii_encoding :: "char \<Rightarrow> bool" where
  "ascii_encoding c = False"

definition utf8_encoding :: "char \<Rightarrow> bool" where
  "utf8_encoding c = True"

text \<open>
  \<^verbatim>\<open>json.dump(obj, file_obj, indent="    ", ensure_ascii=False)\<close> writes the
  document piece by piece in document order, a key before its value, so the first
  piece that cannot be serialised or encoded decides the exception.
\<close>

primrec json_dump :: "(char \<Rightarrow> bool) \<Rightarrow> pyval \<Rightarrow> error + json" where
  "json_dump encodable VNone = Inr JNull"
| "json_dump encodable (VBool b) = Inr (JBool b)"
| "json_dump encodable (VInt i) = Inr (JInt i)"
| "json_dump encodable (VStr s) = ebind (write_str encodable s) (\<lambda>t. Inr (JStr t))"
| "json_dump encodable (VSeq k xs) =
     (if k = KList then ebind (sequence (map (json_dump encodable) xs)) (\<lambda>js. Inr (JArr js))
      else Inl TypeError)"
| "json_dump encodable (VDict d) =
     ebind (sequence (map (\<lambda>kv. ebind (write_str encodable (fst kv)) (\<lambda>k.
                                 ebind (snd kv) (\<lambda>j. Inr (k, j))))
                        (map (map_prod id (json_dump encodable)) d)))
       (\<lambda>js. Inr (JObj js))"

text \<open>A dictionary built key by key: a repeated key keeps its place and takes the last value.\<close>

definition dict_of :: "(string \<times> pyval) list \<Rightarrow> (string \<times> pyval) list" where
  "dict_of kvs = fold (\<lambda>kv d. AList.update (fst kv) (snd kv) d) kvs []"

primrec json_parse :: "json \<Rightarrow> pyval" where
  "json_parse JNull = VNone"
| "json_parse (JBool b) = VBool b"
| "json_parse (JInt i) = VInt i"
| "json_parse (JStr s) = VStr s"
| "json_parse (JArr js) = VSeq KList (map json_parse js)"
| "json_parse (JObj kvs) = VDict (dict_of (map (map_prod id json_parse) kvs))"

text \<open>
  \<^verbatim>\<open>TransDatabase.__json_save(self, file)\<close>: the document written to the file, on
  a platform whose default encoding is described by \<open>encodable\<close>. When the call raises,
  what is left of the file is not modelled.
\<close>

definition std_list_of :: "pyval \<Rightarrow> error + pyval" where
  "std_list_of val =
     ebind (py_iter val) (\<lambda>trans_pairs.
       ebind (foldM (\<lambda>std_list trans_pair.
                  ebind (py_iter trans_pair) (\<lambda>elems. Inr (std_list @ [VSeq KList elems])))
                [] trans_pairs)
         (\<lambda>std_list. Inr (VSeq KList std_list)))"

definition json_save :: "(char \<Rightarrow> bool) \<Rightarrow> TransDatabase \<Rightarrow> error + json" where
  "json_save encodable self =
     ebind (foldM (\<lambda>std_dict (key, val).
                ebind (std_list_of val) (\<lambda>std_list. Inr (AList.update key std_list std_dict)))
              [] (items self))
       (\<lambda>std_dict.
          json_dump encodable (VDict (AList.update INFO_TITLE (VDict (info self)) std_dict)))"

text \<open>
  \<^verbatim>\<open>TransDatabase.__json_load(file)\<close>, on the document that the text of the file
  denotes: what \<^verbatim>\<open>open(file, "r")\<close> decodes, in the same default encoding, from
  the bytes that were written.
\<close>

definition json_load :: "json \<Rightarrow> error + pyval" where
  "json_load doc = Inr (json_parse doc)"

subsection \<open>Workbooks\<close>

text \<open>
  Of an \<^verbatim>\<open>openpyxl\<close> workbook the loader reads the sheets in order, each sheet's
  title, and the rows that \<^verbatim>\<open>iter_rows(min_row=1, max_col=2, values_only=True)\<close>
  yields: pairs of cell values, \<^verbatim>\<open>None\<close> for an empty cell. Cell \<^verbatim>\<open>A1\<close> is the
  first column of the first row.
\<close>

record worksheet =
  title :: string
  rows :: "(pyval \<times> pyval) list"

definition cell_A1 :: "worksheet \<Rightarrow> pyval" where
  "cell_A1 ws = (case rows ws of [] \<Rightarrow> VNone | row # rest \<Rightarrow> fst row)"

text \<open>
  The row loop of \<^verbatim>\<open>__xlsx_load\<close>: \<^verbatim>\<open>break\<close> leaves the loop with the entries
  collected so far.
\<close>

fun read_rows :: "pyval list \<Rightarrow> (pyval \<times> pyval) list \<Rightarrow> pyval list" where
  "read_rows decor_tlist [] = decor_tlist"
| "read_rows decor_tlist (row # rest) =
     (if fst row = VNone \<or> snd row = VNone then decor_tlist
      else read_rows (decor_tlist @ [VSeq KList [fst row, snd row]]) rest)"

text \<open>
  \<^verbatim>\<open>TransDatabase.__xlsx_load(file, info_title)\<close>, on the workbook that
  \<^verbatim>\<open>load_workbook(file)\<close> returned. \<^verbatim>\<open>json.loads\<close> on the content of the
  metadata cell is the parameter \<open>loads\<close>.
\<close>

definition xlsx_load ::
  "(pyval \<Rightarrow> error + pyval) \<Rightarrow> worksheet list \<Rightarrow> string \<Rightarrow> error + pyval" where
  "xlsx_load loads workbook info_title =
     ebind (case find (\<lambda>ws. title ws = info_title) workbook of
              Some ws \<Rightarrow> ebind (loads (cell_A1 ws)) (\<lambda>i. Inr ([(info_title, i)], remove1 ws workbook))
            | None \<Rightarrow> Inr ([], workbook))
       (\<lambda>(kwargs, worksheets).
          Inr (VDict (fold (\<lambda>spreadsheet kw.
                 AList.update (title spreadsheet) (VSeq KList (read_rows [] (rows spreadsheet))) kw)
               worksheets kwargs)))"

subsection \<open>Loading by extension\<close>

text \<open>
  A file is its suffix (\<^verbatim>\<open>pathlib.Path(file).suffix\<close>) and what the matching
  library reads from it. \<^verbatim>\<open>casefold\<close> is given on the letters A to Z; no other
  8-bit character folds to a character of \<^verbatim>\<open>.xlsx\<close> or \<^verbatim>\<open>.json\<close>.
\<close>

datatype file_content = JsonDocument json | XlsxWorkbook "worksheet list"

record db_file =
  suffix :: string
  content :: file_content

definition casefold :: "string \<Rightarrow> string" where
  "casefold s = map (\<lambda>c. let n = (of_char c :: nat) in
                          if 65 \<le> n \<and> n \<le> 90 then char_of (n + 32) else c) s"

text \<open>
  \<^verbatim>\<open>TransDatabase.fromfile(cls, file)\<close>. The call
  \<^verbatim>\<open>cls(first_lang, second_lang, **kwargs)\<close> raises \<^verbatim>\<open>TypeError\<close> when a keyword
  repeats the name of a parameter that is already bound by position: \<^verbatim>\<open>self\<close>,
  \<^verbatim>\<open>first_lang\<close> or \<^verbatim>\<open>second_lang\<close> of \<^verbatim>\<open>__init__\<close>.
\<close>

definition fromfile ::
  "(pyval \<Rightarrow> string) \<Rightarrow> (pyval \<Rightarrow> error + pyval) \<Rightarrow> db_file \<Rightarrow> error + TransDatabase" where
  "fromfile str_of loads f =
     (let extension = casefold (suffix f) in
      ebind (if extension = ''.xlsx'' then
               (case content f of
                  XlsxWorkbook workbook \<Rightarrow> xlsx_load loads workbook INFO_TITLE
                | JsonDocument doc \<Rightarrow> Inl InvalidFile)
             else if extension = ''.json'' then
               (case content f of
                  JsonDocument doc \<Rightarrow> json_load doc
                | XlsxWorkbook workbook \<Rightarrow> Inl ValueError)
             else Inl ValueError)
        (\<lambda>kwargs.
           ebind (py_getitem kwargs (VStr INFO_TITLE)) (\<lambda>i0.
           ebind (py_getitem i0 (VStr LANGS)) (\<lambda>l0.
           ebind (py_getitem l0 (VInt 0)) (\<lambda>first_lang.
           ebind (py_getitem kwargs (VStr INFO_TITLE)) (\<lambda>i1.
           ebind (py_getitem i1 (VStr LANGS)) (\<lambda>l1.
           ebind (py_getitem l1 (VInt 1)) (\<lambda>second_lang.
             case kwargs of
               VDict kw \<Rightarrow>
                 if ''self'' \<in> set (map fst kw) \<or> ''first_lang'' \<in> set (map fst kw) \<or>
                    ''second_lang'' \<in> set (map fst kw)
                 then Inl TypeError
                 else TransDatabase_init str_of first_lang second_lang kw
             | _ \<Rightarrow> Inl TypeError))))))))"

section \<open>Notions used to state the properties\<close>

text \<open>
  A list is free of duplicates, in the sense of \<^verbatim>\<open>append\<close>, when no element is
  equal (\<^verbatim>\<open>==\<close>) to a later one.
\<close>

fun py_distinct :: "pyval list \<Rightarrow> bool" where
  "py_distinct [] = True"
| "py_distinct (x # xs) = (\<not> list_ex (\<lambda>y. py_eq x y) xs \<and> py_distinct xs)"

text \<open>
  A well-formed pair object: a \<^verbatim>\<open>TransPair\<close> whose data has the two elements its
  constructor stores, with the two elements by position.
\<close>

fun is_pair :: "pyval \<Rightarrow> bool" where
  "is_pair (VSeq k [a, b]) = (k = KTransPair)"
| "is_pair _ = False"

fun pair_first :: "pyval \<Rightarrow> pyval" where
  "pair_first (VSeq k (a # rest)) = a"
| "pair_first _ = VNone"

fun pair_second :: "pyval \<Rightarrow> pyval" where
  "pair_second (VSeq k (a # b # rest)) = b"
| "pair_second _ = VNone"

text \<open>
  The lookup as the specification words it: with hint 0 the counterpart of the first
  pair whose first element equals the sentence, otherwise that of the first pair whose
  second element equals it, otherwise nothing; with hint 1 only first elements are
  searched, with hint 2 only second elements.
\<close>

definition spec_get_translation :: "pyval list \<Rightarrow> pyval \<Rightarrow> int \<Rightarrow> pyval" where
  "spec_get_translation L s hint =
     (if hint = 0 then
        (case find (\<lambda>p. py_eq (pair_first p) s) L of
           Some p \<Rightarrow> pair_second p
         | None \<Rightarrow>
             (case find (\<lambda>p. py_eq (pair_second p) s) L of
                Some p \<Rightarrow> pair_first p
              | None \<Rightarrow> VNone))
      else if hint = 1 then
        (case find (\<lambda>p. py_eq (pair_first p) s) L of Some p \<Rightarrow> pair_second p | None \<Rightarrow> VNone)
      else
        (case find (\<lambda>p. py_eq (pair_second p) s) L of Some p \<Rightarrow> pair_first p | None \<Rightarrow> VNone))"

text \<open>
  A row with both cells filled, and the raw two-element entry the loader makes of it.
\<close>

definition complete_row :: "pyval \<times> pyval \<Rightarrow> bool" where
  "complete_row row = (fst row \<noteq> VNone \<and> snd row \<noteq> VNone)"

definition raw_entry :: "pyval \<times> pyval \<Rightarrow> pyval" where
  "raw_entry row = VSeq KList [fst row, snd row]"

section \<open>Properties\<close>

lemma ebind_simps [simp]:
  "ebind (Inl e) f = Inl e"
  "ebind (Inr x) f = f x"
  by (simp_all add: ebind_def)

subsection \<open>TransPair construction\<close>

text \<open>
  On two strings the test \<^verbatim>\<open>(item0 and item1) == ""\<close> selects \<^verbatim>\<open>item0\<close> when it
  is empty and \<^verbatim>\<open>item1\<close> otherwise, so it holds exactly when one of them is empty.
\<close>

lemma TransPair_init_strings:
  "TransPair_init (VStr a) (VStr b) =
     (if a = [] \<or> b = [] then Inl ValueError else Inr (VSeq KTransPair [VStr a, VStr b]))"
  by (simp add: TransPair_init_def py_and_def)

text \<open>
  The type guard fires only when neither argument is a string; with exactly one string
  argument the outcome is decided by the second guard alone.
\<close>

lemma TransPair_init_TypeError_iff:
  "TransPair_init a b = Inl TypeError \<longleftrightarrow> \<not> is_str a \<and> \<not> is_str b"
  by (simp add: TransPair_init_def)

text \<open>
  Claim C7. For all strings \<open>a\<close> and \<open>b\<close> of which at least one is empty,
  constructing the pair \<open>(a, b)\<close> fails with \<^verbatim>\<open>ValueError\<close>.
\<close>

theorem TransPair_init_empty_string:
  "a = [] \<or> b = [] \<Longrightarrow> TransPair_init (VStr a) (VStr b) = Inl ValueError"
  by (auto simp: TransPair_init_def py_and_def)

theorem TransPair_init_empty_string_witness:
  "TransPair_init (VStr []) (VStr ''hallo'') = Inl ValueError \<and>
   TransPair_init (VStr ''hello'') (VStr []) = Inl ValueError"
proof (rule conjI)
  show "TransPair_init (VStr []) (VStr ''hallo'') = Inl ValueError"
    by (rule TransPair_init_empty_string) simp
  show "TransPair_init (VStr ''hello'') (VStr []) = Inl ValueError"
    by (rule TransPair_init_empty_string) simp
qed

text \<open>
  Claim C6. The claim asks for a \<^verbatim>\<open>TypeError\<close> as soon as one argument is not a
  string. The call \<^verbatim>\<open>TransPair("a", 5)\<close> returns a pair holding the integer.
\<close>

theorem TransPair_init_accepts_non_string:
  "TransPair_init (VStr ''a'') (VInt 5) = Inr (VSeq KTransPair [VStr ''a'', VInt 5])"
  by (simp add: TransPair_init_def py_and_def)

subsection \<open>TransList.pop\<close>

lemma TransList_pop_in_range:
  "- int (length self) \<le> i \<Longrightarrow> i < int (length self) \<Longrightarrow>
   \<exists>rest. TransList_pop self i = Inr (VNone, rest) \<and> length rest = length self - 1"
  by (auto simp: TransList_pop_def list_pop_def Let_def)

lemma TransList_pop_out_of_range:
  "i < - int (length self) \<or> int (length self) \<le> i \<Longrightarrow> TransList_pop self i = Inl IndexError"
  by (auto simp: TransList_pop_def list_pop_def Let_def)

text \<open>
  Claim C4. The claim asks that \<^verbatim>\<open>pop\<close> return the element it removes. On the list
  of the two pairs below, \<^verbatim>\<open>pop()\<close> removes the last pair, as the built-in
  \<^verbatim>\<open>list.pop\<close> reports, and returns \<^verbatim>\<open>None\<close>.
\<close>

theorem TransList_pop_returns_None:
  "TransList_pop_default
     [VSeq KTransPair [VStr ''hello'', VStr ''hallo''], VSeq KTransPair [VStr ''bye'', VStr ''ciao'']]
     = Inr (VNone, [VSeq KTransPair [VStr ''hello'', VStr ''hallo'']]) \<and>
   list_pop
     [VSeq KTransPair [VStr ''hello'', VStr ''hallo''], VSeq KTransPair [VStr ''bye'', VStr ''ciao'']]
     (- 1)
     = Inr (VSeq KTransPair [VStr ''bye'', VStr ''ciao''],
            [VSeq KTransPair [VStr ''hello'', VStr ''hallo'']])"
  by (simp add: TransList_pop_default_def TransList_pop_def list_pop_def)

subsection \<open>TransDatabase: assignment, add, languages\<close>

lemma TransDatabase_setitem_TransList:
  "is_TransList v \<Longrightarrow>
   TransDatabase_setitem d (VStr name) v = Inr (d\<lparr>items := AList.update name v (items d)\<rparr>)"
  by (simp add: TransDatabase_setitem_def)

lemma TransDatabase_setitem_non_string:
  "\<not> is_str name \<Longrightarrow> TransDatabase_setitem d name v = Inl TypeError"
  by (cases name) (simp_all add: TransDatabase_setitem_def)

text \<open>
  Claim C5. The claim asks for a type error when the value assigned is not a
  \<^verbatim>\<open>TransList\<close>. On a freshly constructed database the assignment
  \<^verbatim>\<open>d["x"] = 5\<close> returns normally and leaves the database as it was.
\<close>

theorem setitem_non_TransList_silent:
  "ebind (TransDatabase_init str_of (VStr ''EN'') (VStr ''DE'') [])
     (\<lambda>d. ebind (TransDatabase_setitem d (VStr ''x'') (VInt 5)) (\<lambda>d'. Inr (d' = d, items d')))
   = Inr (True, [])"
  by (simp add: TransDatabase_init_def init_info_def chk_lang_attr_def TransDatabase_setitem_def
      INFO_TITLE_def)

lemma update_absent:
  "k \<notin> set (map fst al) \<Longrightarrow> AList.update k v al = al @ [(k, v)]"
  by (induction al) auto

lemma TransDatabase_add_present:
  "name \<in> set (map fst (items d)) \<Longrightarrow> TransDatabase_add d (VStr name) v = Inl KeyError"
  by (simp add: TransDatabase_add_def)

lemma TransDatabase_add_supplied:
  "name \<notin> set (map fst (items d)) \<Longrightarrow> is_TransList v \<Longrightarrow>
   TransDatabase_add d (VStr name) v = Inr (d\<lparr>items := items d @ [(name, v)]\<rparr>)"
proof -
  assume absent: "name \<notin> set (map fst (items d))" and tl: "is_TransList v"
  have upd: "AList.update name v (items d) = items d @ [(name, v)]"
    using absent by (rule update_absent)
  from tl have "v \<noteq> VNone" by auto
  with absent tl upd show ?thesis
    by (simp add: TransDatabase_add_def TransDatabase_setitem_def)
qed

text \<open>
  Claim C3. The claim asks that \<^verbatim>\<open>add(name)\<close> without a list register a new empty
  list under \<^verbatim>\<open>name\<close>. On a freshly constructed database \<^verbatim>\<open>add("x")\<close> returns
  normally and the database still has no key.
\<close>

theorem add_default_not_stored:
  "ebind (TransDatabase_init str_of (VStr ''EN'') (VStr ''DE'') [])
     (\<lambda>d. ebind (TransDatabase_add_default d (VStr ''x'')) (\<lambda>d'. Inr (d' = d, map fst (items d'))))
   = Inr (True, [])"
  by (simp add: TransDatabase_init_def init_info_def chk_lang_attr_def TransDatabase_add_default_def
      TransDatabase_add_def INFO_TITLE_def)

text \<open>The constructor does establish two distinct language identifiers.\<close>

lemma foldM_invariant:
  assumes "foldM f s xs = Inr s'" and "P s"
    and "\<And>t x t'. f t x = Inr t' \<Longrightarrow> P t \<Longrightarrow> P t'"
  shows "P s'"
  using assms(1,2)
proof (induction xs arbitrary: s)
  case Nil
  then show ?case by simp
next
  case (Cons x xs)
  from Cons.prems(1) obtain t where step: "f s x = Inr t" and rest: "foldM f t xs = Inr s'"
    by (auto split: sum.splits)
  from assms(3) [OF step Cons.prems(2)] have "P t" .
  with Cons.IH [OF rest] show ?case .
qed

lemma TransDatabase_add_info:
  "TransDatabase_add d name v = Inr d' \<Longrightarrow> info d' = info d"
  by (cases "dict_contains (items d) name")
    (auto simp: TransDatabase_add_def TransDatabase_setitem_def split: if_splits pyval.splits)

lemma TransDatabase_init_languages:
  assumes "TransDatabase_init str_of first_lang second_lang kwargs = Inr d"
  shows "\<exists>a b. languages d = Some (VStr a, VStr b) \<and> a \<noteq> b"
proof -
  from assms obtain i kwargs' where
    i: "init_info str_of first_lang second_lang kwargs = Inr (i, kwargs')" and
    loop: "foldM (\<lambda>self (tlist_name, decor_tlist).
           ebind (build_tlist decor_tlist) (\<lambda>tlist.
           TransDatabase_add self (VStr tlist_name) (VSeq KTransList tlist)))
         \<lparr>items = [], info = i\<rparr> kwargs' = Inr d"
    by (cases "init_info str_of first_lang second_lang kwargs")
      (auto simp: TransDatabase_init_def)
  have "info d = i"
    by (rule foldM_invariant [OF loop, where P = "\<lambda>t. info t = i"])
      (auto simp: ebind_def dest: TransDatabase_add_info split: sum.splits)
  moreover from i have "\<exists>a b. map_of i LANGS = Some (VSeq KList [VStr a, VStr b]) \<and> a \<noteq> b"
    by (auto simp: init_info_def chk_lang_attr_def Let_def update_conv'
      split: option.splits pyval.splits if_splits)
  ultimately show ?thesis by (auto simp: languages_def)
qed

text \<open>
  Claim C2. The claim asks that every operation writing \<^verbatim>\<open>info["language"]\<close> keep
  the two identifiers distinct. After \<^verbatim>\<open>TransDatabase("EN", "DE")\<close>, the call
  \<^verbatim>\<open>change_lang_attrs("EN", "EN")\<close> succeeds and both identifiers are \<^verbatim>\<open>"EN"\<close>.
\<close>

theorem change_lang_attrs_equal_languages:
  "ebind (TransDatabase_init str_of (VStr ''EN'') (VStr ''DE'') [])
     (\<lambda>d. ebind (change_lang_attrs d (VStr ''EN'') (VStr ''EN'')) (\<lambda>d'. Inr (languages d')))
   = Inr (Some (VStr ''EN'', VStr ''EN''))"
  by (simp add: TransDatabase_init_def init_info_def chk_lang_attr_def change_lang_attrs_def
      TransPair_init_def py_and_def languages_def LANGS_def INFO_TITLE_def)

subsection \<open>TransList construction\<close>

lemma py_distinct_snoc:
  "py_distinct (acc @ [x]) \<longleftrightarrow> py_distinct acc \<and> \<not> list_contains acc x"
  by (induction acc) (auto simp: list_contains_def list_ex_iff)

lemma foldM_append:
  "foldM f s (xs @ ys) = ebind (foldM f s xs) (\<lambda>s'. foldM f s' ys)"
  by (induction xs arbitrary: s) (auto split: sum.splits)

text \<open>The loop of the constructor accepts a run of pairwise different pair objects.\<close>

lemma init_loop_accepts:
  "list_all is_TransPair args \<Longrightarrow> py_distinct (acc @ args) \<Longrightarrow>
   foldM TransList_append acc args = Inr (acc @ args)"
proof (induction args arbitrary: acc)
  case Nil
  then show ?case by simp
next
  case (Cons x args)
  from Cons.prems(2) have "py_distinct ((acc @ [x]) @ args)" by simp
  moreover have "py_distinct (acc @ [x])"
    using Cons.prems(2) by (induction acc) (auto simp: list_ex_iff)
  then have "\<not> list_contains acc x" by (simp add: py_distinct_snoc)
  ultimately show ?case
    using Cons.IH [of "acc @ [x]"] Cons.prems(1) by (simp add: TransList_append_def)
qed

text \<open>Whatever the loop returns is the arguments themselves, appended unchanged.\<close>

lemma init_loop_result:
  "foldM TransList_append acc args = Inr L \<Longrightarrow>
   L = acc @ args \<and> list_all is_TransPair args \<and> (py_distinct acc \<longrightarrow> py_distinct L)"
proof (induction args arbitrary: acc)
  case Nil
  then show ?case by simp
next
  case (Cons x args)
  from Cons.prems obtain acc' where
    step: "TransList_append acc x = Inr acc'" and rest: "foldM TransList_append acc' args = Inr L"
    by (auto split: sum.splits)
  from step have x: "is_TransPair x" "\<not> list_contains acc x" "acc' = acc @ [x]"
    by (auto simp: TransList_append_def split: if_splits)
  from Cons.IH [OF rest] x show ?case by (auto simp: py_distinct_snoc)
qed

lemma init_loop_rejects:
  "\<not> is_TransPair x \<or> list_contains acc x \<Longrightarrow>
   foldM TransList_append acc (x # post) =
     (if \<not> is_TransPair x then Inl TypeError else Inl KeyError)"
  by (auto simp: TransList_append_def)

text \<open>
  Claim C10, as stated, asks for a \<^verbatim>\<open>TypeError\<close> whenever some argument is not a
  \<^verbatim>\<open>TransPair\<close>. The arguments are appended in order and the first rejection ends
  the construction: with a repeated pair before the raw list, the error is the
  duplicate error \<^verbatim>\<open>KeyError\<close>.
\<close>

theorem TransList_init_duplicate_before_raw:
  "\<not> is_TransPair (VSeq KList [VStr ''c'', VStr ''d'']) \<and>
   TransList_init
     [VSeq KTransPair [VStr ''a'', VStr ''b''], VSeq KTransPair [VStr ''a'', VStr ''b''],
      VSeq KList [VStr ''c'', VStr ''d'']]
   = Inl KeyError"
  by (simp add: TransList_init_def TransList_append_def list_contains_def)

text \<open>
  Claim C10, amended. Let \<open>pre\<close> be pair objects no two of which are equal. Then
  constructing from \<open>pre\<close> succeeds and stores \<open>pre\<close>; if the next argument \<open>x\<close> is not
  a \<^verbatim>\<open>TransPair\<close>, construction fails with \<^verbatim>\<open>TypeError\<close>, and if it is a pair
  equal to one of \<open>pre\<close>, with \<^verbatim>\<open>KeyError\<close>, whatever follows. Hence construction
  fails whenever some argument is not a \<^verbatim>\<open>TransPair\<close>, and a construction that
  succeeds stores exactly its arguments, all of them pair objects, no two equal: no raw
  argument is converted.
\<close>

theorem TransList_init_first_rejected:
  "(list_all is_TransPair pre \<and> py_distinct pre \<longrightarrow>
      TransList_init pre = Inr pre \<and>
      (\<not> is_TransPair x \<longrightarrow> TransList_init (pre @ x # post) = Inl TypeError) \<and>
      (is_TransPair x \<and> list_contains pre x \<longrightarrow> TransList_init (pre @ x # post) = Inl KeyError)) \<and>
   ((\<exists>y \<in> set args. \<not> is_TransPair y) \<longrightarrow> (\<exists>e. TransList_init args = Inl e)) \<and>
   (TransList_init args = Inr L \<longrightarrow> L = args \<and> list_all is_TransPair L \<and> py_distinct L)"
proof (intro conjI impI)
  assume pre: "list_all is_TransPair pre \<and> py_distinct pre"
  then show ok: "TransList_init pre = Inr pre"
    using init_loop_accepts [of pre "[]"] by (simp add: TransList_init_def)
  { assume "\<not> is_TransPair x"
    then show "TransList_init (pre @ x # post) = Inl TypeError"
      using ok init_loop_rejects [of x pre post]
      by (simp add: TransList_init_def foldM_append del: foldM.simps) }
  { assume "is_TransPair x \<and> list_contains pre x"
    then show "TransList_init (pre @ x # post) = Inl KeyError"
      using ok init_loop_rejects [of x pre post]
      by (simp add: TransList_init_def foldM_append del: foldM.simps) }
next
  assume "\<exists>y \<in> set args. \<not> is_TransPair y"
  then have "\<not> list_all is_TransPair args" by (auto simp: list_all_iff)
  then have "\<And>L. TransList_init args \<noteq> Inr L"
    using init_loop_result [of "[]" args] by (auto simp: TransList_init_def)
  then show "\<exists>e. TransList_init args = Inl e" by (cases "TransList_init args") auto
next
  assume "TransList_init args = Inr L"
  then show "L = args" "list_all is_TransPair L" "py_distinct L"
    using init_loop_result [of "[]" args L] by (auto simp: TransList_init_def)
qed

theorem TransList_init_first_rejected_witness:
  "TransList_init [VSeq KTransPair [VStr ''a'', VStr ''b'']]
     = Inr [VSeq KTransPair [VStr ''a'', VStr ''b'']] \<and>
   TransList_init [VSeq KTransPair [VStr ''a'', VStr ''b''], VSeq KList [VStr ''c'', VStr ''d'']]
     = Inl TypeError \<and>
   TransList_init [VSeq KTransPair [VStr ''a'', VStr ''b''], VSeq KTransPair [VStr ''a'', VStr ''b'']]
     = Inl KeyError \<and>
   (\<exists>e. TransList_init [VSeq KList [VStr ''c'', VStr ''d''], VSeq KTransPair [VStr ''a'', VStr ''b'']]
     = Inl e)"
proof -
  let ?p = "VSeq KTransPair [VStr ''a'', VStr ''b'']"
  let ?raw = "VSeq KList [VStr ''c'', VStr ''d'']"
  have pre: "list_all is_TransPair [?p] \<and> py_distinct [?p]" by simp
  have raw: "\<not> is_TransPair ?raw" by simp
  have dup: "is_TransPair ?p \<and> list_contains [?p] ?p" by (simp add: list_contains_def)
  have ex: "\<exists>y \<in> set [?raw, ?p]. \<not> is_TransPair y" by simp
  from TransList_init_first_rejected [of "[?p]" ?raw "[]" "[?raw, ?p]" "[]"] pre raw ex
  have 1: "TransList_init [?p] = Inr [?p]"
    and 2: "TransList_init ([?p] @ ?raw # []) = Inl TypeError"
    and 4: "\<exists>e. TransList_init [?raw, ?p] = Inl e"
    by blast+
  from TransList_init_first_rejected [of "[?p]" ?p "[]" "[]" "[]"] pre dup
  have 3: "TransList_init ([?p] @ ?p # []) = Inl KeyError"
    by blast
  from 1 2 3 4 show ?thesis by simp
qed

subsection \<open>TransList.get_translation\<close>

lemma TransPair_init_is_pair:
  "TransPair_init a b = Inr p \<Longrightarrow> is_pair p"
  by (auto simp: TransPair_init_def split: if_splits)

lemma is_pair_getitem:
  "is_pair p \<Longrightarrow>
   py_getitem p (VInt 0) = Inr (pair_first p) \<and> py_getitem p (VInt 1) = Inr (pair_second p)"
  by (induction p rule: is_pair.induct) (simp_all add: list_index_def)

text \<open>On well-formed pairs each loop is a search for the first match in list order.\<close>

lemma search_first_find:
  "list_all is_pair L \<Longrightarrow>
   search_first L s = Inr (map_option pair_second (find (\<lambda>p. py_eq (pair_first p) s) L))"
  by (induction L) (simp_all add: is_pair_getitem)

lemma search_second_find:
  "list_all is_pair L \<Longrightarrow>
   search_second L s = Inr (map_option pair_first (find (\<lambda>p. py_eq (pair_second p) s) L))"
  by (induction L) (simp_all add: is_pair_getitem)

text \<open>
  Claim C8. For every list \<open>L\<close> of pair objects, every sentence \<open>s\<close> and every hint
  among 0, 1 and 2, \<^verbatim>\<open>get_translation\<close> returns normally, and its value is the one
  the specification describes: first match in list order, first elements before second
  elements with hint 0, \<^verbatim>\<open>None\<close> when nothing matches.
\<close>

theorem get_translation_refines_spec:
  "list_all is_pair L \<Longrightarrow> hint \<in> {0, 1, 2} \<Longrightarrow>
   TransList_get_translation L s (VInt hint) = Inr (spec_get_translation L s hint)"
  by (auto simp: TransList_get_translation_def spec_get_translation_def search_first_find
      search_second_find split: option.splits)

theorem get_translation_refines_spec_witness:
  "TransList_get_translation
     [VSeq KTransPair [VStr ''hello'', VStr ''hallo''], VSeq KTransPair [VStr ''hallo'', VStr ''bye'']]
     (VStr ''hallo'') (VInt 0) = Inr (VStr ''bye'') \<and>
   TransList_get_translation
     [VSeq KTransPair [VStr ''hello'', VStr ''hallo''], VSeq KTransPair [VStr ''hallo'', VStr ''bye'']]
     (VStr ''hallo'') (VInt 2) = Inr (VStr ''hello'') \<and>
   TransList_get_translation
     [VSeq KTransPair [VStr ''hello'', VStr ''hallo''], VSeq KTransPair [VStr ''hallo'', VStr ''bye'']]
     (VStr ''bye'') (VInt 1) = Inr VNone"
proof -
  let ?L = "[VSeq KTransPair [VStr ''hello'', VStr ''hallo''],
             VSeq KTransPair [VStr ''hallo'', VStr ''bye'']]"
  have wf: "list_all is_pair ?L" by simp
  have "TransList_get_translation ?L (VStr ''hallo'') (VInt 0)
          = Inr (spec_get_translation ?L (VStr ''hallo'') 0)"
    by (rule get_translation_refines_spec [OF wf]) simp
  moreover have "TransList_get_translation ?L (VStr ''hallo'') (VInt 2)
          = Inr (spec_get_translation ?L (VStr ''hallo'') 2)"
    by (rule get_translation_refines_spec [OF wf]) simp
  moreover have "TransList_get_translation ?L (VStr ''bye'') (VInt 1)
          = Inr (spec_get_translation ?L (VStr ''bye'') 1)"
    by (rule get_translation_refines_spec [OF wf]) simp
  ultimately show ?thesis by (simp add: spec_get_translation_def)
qed

subsection \<open>Loading a workbook\<close>

lemma read_rows_takeWhile:
  "read_rows acc rs = acc @ map raw_entry (takeWhile complete_row rs)"
  by (induction rs arbitrary: acc) (auto simp: complete_row_def raw_entry_def)

lemma fold_sheets_lookup:
  "distinct (map title wss) \<Longrightarrow> ws \<in> set wss \<Longrightarrow>
   map_of (fold (\<lambda>spreadsheet kw.
             AList.update (title spreadsheet) (VSeq KList (read_rows [] (rows spreadsheet))) kw)
           wss kw0) (title ws) = Some (VSeq KList (map raw_entry (takeWhile complete_row (rows ws))))"
proof (induction wss arbitrary: kw0)
  case Nil
  then show ?case by simp
next
  case (Cons w wss)
  show ?case
  proof (cases "ws = w")
    case True
    have keep: "\<And>kw. title w \<notin> title ` set wss' \<Longrightarrow>
      map_of (fold (\<lambda>spreadsheet kw.
             AList.update (title spreadsheet) (VSeq KList (read_rows [] (rows spreadsheet))) kw)
           wss' kw) (title w) = map_of kw (title w)" for wss'
      by (induction wss') (auto simp: update_conv')
    from Cons.prems(1) have "title w \<notin> title ` set wss" by simp
    from keep [OF this] True show ?thesis
      by (simp add: update_conv' read_rows_takeWhile)
  next
    case False
    with Cons show ?thesis by simp
  qed
qed


lemma distinct_map_remove1:
  "distinct (map f xs) \<Longrightarrow> distinct (map f (remove1 x xs))"
proof (induction xs)
  case Nil
  then show ?case by simp
next
  case (Cons a xs)
  have "set (remove1 x xs) \<subseteq> set xs" by (rule set_remove1_subset)
  with Cons show ?case by auto
qed

lemma xlsx_load_sheet:
  assumes "distinct (map title wb)" and "ws \<in> set wb" and "title ws \<noteq> INFO_TITLE"
    and "xlsx_load loads wb INFO_TITLE = Inr kwargs"
  shows "py_getitem kwargs (VStr (title ws)) = Inr (VSeq KList (map raw_entry (takeWhile complete_row (rows ws))))"
proof (cases "find (\<lambda>w. title w = INFO_TITLE) wb")
  case None
  with assms(4) have "kwargs = VDict (fold (\<lambda>spreadsheet kw.
      AList.update (title spreadsheet) (VSeq KList (read_rows [] (rows spreadsheet))) kw) wb [])"
    by (simp add: xlsx_load_def)
  with fold_sheets_lookup [OF assms(1,2)] show ?thesis by simp
next
  case (Some w)
  then have w: "title w = INFO_TITLE" by (auto simp: find_Some_iff)
  with assms(3) have "ws \<noteq> w" by auto
  with assms(2) have in_rest: "ws \<in> set (remove1 w wb)" by simp
  from assms(1) have d: "distinct (map title (remove1 w wb))"
    by (rule distinct_map_remove1)
  from Some assms(4) obtain i where "kwargs = VDict (fold (\<lambda>spreadsheet kw.
      AList.update (title spreadsheet) (VSeq KList (read_rows [] (rows spreadsheet))) kw)
      (remove1 w wb) [(INFO_TITLE, i)])"
    by (cases "loads (cell_A1 w)") (auto simp: xlsx_load_def)
  with fold_sheets_lookup [OF d in_rest] show ?thesis by simp
qed

lemma xlsx_load_failure:
  assumes "xlsx_load loads wb INFO_TITLE = Inl e"
  shows "\<exists>w \<in> set wb. title w = INFO_TITLE \<and> loads (cell_A1 w) = Inl e"
proof (cases "find (\<lambda>w. title w = INFO_TITLE) wb")
  case None
  with assms show ?thesis by (simp add: xlsx_load_def)
next
  case (Some w)
  then have "w \<in> set wb" "title w = INFO_TITLE"
    by (auto simp: find_Some_iff)
  moreover from Some assms have "loads (cell_A1 w) = Inl e"
    by (cases "loads (cell_A1 w)") (auto simp: xlsx_load_def)
  ultimately show ?thesis by blast
qed

text \<open>
  Claim C9. In a workbook whose sheet titles are distinct, every sheet other than the
  metadata sheet is loaded as the entries of its rows up to, and not including, the
  first row with an empty cell; later rows do not appear and raise no error. The load
  fails only when the metadata cell cannot be parsed. In particular the four rows
  \<^verbatim>\<open>("a","b"), ("c","d"), (None,"e"), ("f","g")\<close> yield the first two pairs.
\<close>

theorem xlsx_load_truncates_at_first_gap:
  "(distinct (map title wb) \<and> ws \<in> set wb \<and> title ws \<noteq> INFO_TITLE \<and>
    xlsx_load loads wb INFO_TITLE = Inr kwargs \<longrightarrow>
      py_getitem kwargs (VStr (title ws)) =
        Inr (VSeq KList (map raw_entry (takeWhile complete_row (rows ws))))) \<and>
   (xlsx_load loads wb INFO_TITLE = Inl err \<longrightarrow>
      (\<exists>w \<in> set wb. title w = INFO_TITLE \<and> loads (cell_A1 w) = Inl err)) \<and>
   xlsx_load loads
     [\<lparr>title = ''Sheet'',
       rows = [(VStr ''a'', VStr ''b''), (VStr ''c'', VStr ''d''),
               (VNone, VStr ''e''), (VStr ''f'', VStr ''g'')]\<rparr>] INFO_TITLE
     = Inr (VDict [(''Sheet'', VSeq KList [VSeq KList [VStr ''a'', VStr ''b''],
                                           VSeq KList [VStr ''c'', VStr ''d'']])])"
proof (intro conjI impI)
  assume "distinct (map title wb) \<and> ws \<in> set wb \<and> title ws \<noteq> INFO_TITLE \<and>
    xlsx_load loads wb INFO_TITLE = Inr kwargs"
  then show "py_getitem kwargs (VStr (title ws)) =
        Inr (VSeq KList (map raw_entry (takeWhile complete_row (rows ws))))"
    using xlsx_load_sheet [of wb ws loads kwargs] by simp
next
  assume "xlsx_load loads wb INFO_TITLE = Inl err"
  then show "\<exists>w \<in> set wb. title w = INFO_TITLE \<and> loads (cell_A1 w) = Inl err"
    by (rule xlsx_load_failure)
next
  show "xlsx_load loads
     [\<lparr>title = ''Sheet'',
       rows = [(VStr ''a'', VStr ''b''), (VStr ''c'', VStr ''d''),
               (VNone, VStr ''e''), (VStr ''f'', VStr ''g'')]\<rparr>] INFO_TITLE
     = Inr (VDict [(''Sheet'', VSeq KList [VSeq KList [VStr ''a'', VStr ''b''],
                                           VSeq KList [VStr ''c'', VStr ''d'']])])"
    by (simp add: xlsx_load_def INFO_TITLE_def)
qed

theorem xlsx_load_truncates_at_first_gap_witness:
  "xlsx_load (\<lambda>v. if v = VStr ''{}'' then Inr (VDict []) else Inl ValueError)
     [\<lparr>title = ''info'', rows = [(VStr ''{}'', VNone)]\<rparr>,
      \<lparr>title = ''Sheet'',
       rows = [(VStr ''a'', VStr ''b''), (VStr ''c'', VStr ''d''),
               (VNone, VStr ''e''), (VStr ''f'', VStr ''g'')]\<rparr>] INFO_TITLE
     = Inr (VDict [(''info'', VDict []),
                   (''Sheet'', VSeq KList [VSeq KList [VStr ''a'', VStr ''b''],
                                           VSeq KList [VStr ''c'', VStr ''d'']])]) \<and>
   py_getitem
     (VDict [(''info'', VDict []),
             (''Sheet'', VSeq KList [VSeq KList [VStr ''a'', VStr ''b''],
                                     VSeq KList [VStr ''c'', VStr ''d'']])])
     (VStr ''Sheet'')
     = Inr (VSeq KList [VSeq KList [VStr ''a'', VStr ''b''],
                        VSeq KList [VStr ''c'', VStr ''d'']]) \<and>
   xlsx_load (\<lambda>v. Inl ValueError) [\<lparr>title = ''info'', rows = []\<rparr>] INFO_TITLE = Inl ValueError \<and>
   (\<exists>w. w \<in> set [\<lparr>title = ''info'', rows = []\<rparr>] \<and> title w = INFO_TITLE)"
proof -
  let ?ws = "\<lparr>title = ''Sheet'',
       rows = [(VStr ''a'', VStr ''b''), (VStr ''c'', VStr ''d''),
               (VNone, VStr ''e''), (VStr ''f'', VStr ''g'')]\<rparr>"
  let ?wb = "[\<lparr>title = ''info'', rows = [(VStr ''{}'', VNone)]\<rparr>, ?ws]"
  let ?loads = "\<lambda>v. if v = VStr ''{}'' then Inr (VDict []) else Inl ValueError"
  let ?kw = "VDict [(''info'', VDict []),
             (''Sheet'', VSeq KList [VSeq KList [VStr ''a'', VStr ''b''],
                                     VSeq KList [VStr ''c'', VStr ''d'']])]"
  let ?bad = "[\<lparr>title = ''info'', rows = []\<rparr>]"
  have hyp: "distinct (map title ?wb) \<and> ?ws \<in> set ?wb \<and> title ?ws \<noteq> INFO_TITLE \<and>
    xlsx_load ?loads ?wb INFO_TITLE = Inr ?kw"
    by (simp add: xlsx_load_def INFO_TITLE_def cell_A1_def)
  with xlsx_load_truncates_at_first_gap [of ?wb ?ws ?loads ?kw]
  have 1: "py_getitem ?kw (VStr (title ?ws)) =
        Inr (VSeq KList (map raw_entry (takeWhile complete_row (rows ?ws))))"
    by blast
  have fails: "xlsx_load (\<lambda>v. Inl ValueError) ?bad INFO_TITLE = Inl ValueError"
    by (simp add: xlsx_load_def INFO_TITLE_def)
  with xlsx_load_truncates_at_first_gap [of ?bad _ "\<lambda>v. Inl ValueError" _ ValueError]
  have 2: "\<exists>w \<in> set ?bad. title w = INFO_TITLE \<and> (Inl ValueError :: error + pyval) = Inl ValueError"
    by blast
  from 2 have 3: "\<exists>w. w \<in> set ?bad \<and> title w = INFO_TITLE"
    by blast
  from hyp 1 fails 3 show ?thesis
    by (simp add: complete_row_def raw_entry_def)
qed

subsection \<open>Saving to JSON and loading back\<close>

text \<open>
  Claim C1, as stated, promises the round trip on every platform. The database is the
  one that the constructor with the languages \<^verbatim>\<open>"EN"\<close> and \<^verbatim>\<open>"DE"\<close> and
  \<^verbatim>\<open>add\<close> of the list \<^verbatim>\<open>"greetings"\<close> build; the letter u with diaeresis is
  the character of code 0xFC. Where the default encoding is ASCII, saving it raises
  \<^verbatim>\<open>UnicodeEncodeError\<close> and there is no document to load back.
\<close>

theorem json_save_ascii_platform_raises:
  "TransPair_init (VStr ''hello'') (VStr ''hallo'')
     = Inr (VSeq KTransPair [VStr ''hello'', VStr ''hallo'']) \<and>
   TransPair_init (VStr ''bye'') (VStr (''tsch'' @ [CHR 0xFC] @ ''ss''))
     = Inr (VSeq KTransPair [VStr ''bye'', VStr (''tsch'' @ [CHR 0xFC] @ ''ss'')]) \<and>
   TransList_init
     [VSeq KTransPair [VStr ''hello'', VStr ''hallo''],
      VSeq KTransPair [VStr ''bye'', VStr (''tsch'' @ [CHR 0xFC] @ ''ss'')]]
     = Inr [VSeq KTransPair [VStr ''hello'', VStr ''hallo''],
            VSeq KTransPair [VStr ''bye'', VStr (''tsch'' @ [CHR 0xFC] @ ''ss'')]] \<and>
   TransDatabase_add
     \<lparr>items = [],
      info = [(''language'', VSeq KList [VStr ''EN'', VStr ''DE'']),
              (''creator'', VStr ''Daniel Daninsky''),
              (''script'', VStr ''duobreaker v0.1'')]\<rparr>
     (VStr ''greetings'')
     (VSeq KTransList
       [VSeq KTransPair [VStr ''hello'', VStr ''hallo''],
        VSeq KTransPair [VStr ''bye'', VStr (''tsch'' @ [CHR 0xFC] @ ''ss'')]])
     = Inr \<lparr>items =
              [(''greetings'',
                VSeq KTransList
                  [VSeq KTransPair [VStr ''hello'', VStr ''hallo''],
                   VSeq KTransPair [VStr ''bye'', VStr (''tsch'' @ [CHR 0xFC] @ ''ss'')]])],
            info = [(''language'', VSeq KList [VStr ''EN'', VStr ''DE'']),
                    (''creator'', VStr ''Daniel Daninsky''),
                    (''script'', VStr ''duobreaker v0.1'')]\<rparr> \<and>
   json_save ascii_encoding
     \<lparr>items =
        [(''greetings'',
          VSeq KTransList
            [VSeq KTransPair [VStr ''hello'', VStr ''hallo''],
             VSeq KTransPair [VStr ''bye'', VStr (''tsch'' @ [CHR 0xFC] @ ''ss'')]])],
      info = [(''language'', VSeq KList [VStr ''EN'', VStr ''DE'']),
              (''creator'', VStr ''Daniel Daninsky''),
              (''script'', VStr ''duobreaker v0.1'')]\<rparr>
     = Inl UnicodeEncodeError"
  by (simp add: TransPair_init_def py_and_def TransList_init_def TransList_append_def
      list_contains_def TransDatabase_add_def TransDatabase_setitem_def json_save_def
      std_list_of_def write_str_def ascii_encoding_def INFO_TITLE_def)

text \<open>
  Claim C1, amended. On a platform whose default text encoding has the character of
  code 0xFC: the constructor with the languages \<^verbatim>\<open>"EN"\<close> and \<^verbatim>\<open>"DE"\<close> yields the
  empty database \<open>d0\<close> written out below, \<^verbatim>\<open>add\<close> of the list \<^verbatim>\<open>"greetings"\<close>
  holding the two pairs in order succeeds, saving yields a document, and loading that
  document through \<^verbatim>\<open>fromfile\<close> under the suffix \<^verbatim>\<open>.json\<close> yields a database
  with the same list names, the same pairs in the same order, and the same two language
  identifiers in the same order.
\<close>

theorem json_roundtrip_greetings:
  "encodable (CHR 0xFC) \<Longrightarrow>
   \<exists>p1 p2 tl d0 d doc d'.
     TransPair_init (VStr ''hello'') (VStr ''hallo'') = Inr p1 \<and>
     TransPair_init (VStr ''bye'') (VStr (''tsch'' @ [CHR 0xFC] @ ''ss'')) = Inr p2 \<and>
     TransList_init [p1, p2] = Inr tl \<and>
     TransDatabase_init str_of (VStr ''EN'') (VStr ''DE'') [] = Inr d0 \<and>
     d0 = \<lparr>items = [],
           info = [(''language'', VSeq KList [VStr ''EN'', VStr ''DE'']),
                   (''creator'', VStr ''Daniel Daninsky''),
                   (''script'', VStr ''duobreaker v0.1'')]\<rparr> \<and>
     TransDatabase_add d0 (VStr ''greetings'') (VSeq KTransList tl) = Inr d \<and>
     json_save encodable d = Inr doc \<and>
     fromfile str_of loads \<lparr>suffix = ''.json'', content = JsonDocument doc\<rparr> = Inr d' \<and>
     set (map fst (items d')) = set (map fst (items d)) \<and>
     set (map fst (items d)) = {''greetings''} \<and>
     map_of (items d') ''greetings'' = map_of (items d) ''greetings'' \<and>
     map_of (items d) ''greetings'' = Some (VSeq KTransList [p1, p2]) \<and>
     languages d' = languages d \<and>
     languages d = Some (VStr ''EN'', VStr ''DE'') \<and>
     d' = d"
  by (simp add: TransPair_init_def py_and_def TransList_init_def TransList_append_def
      list_contains_def TransDatabase_init_def init_info_def chk_lang_attr_def
      TransDatabase_add_def TransDatabase_setitem_def json_save_def std_list_of_def
      json_load_def fromfile_def casefold_def dict_of_def build_tlist_def list_index_def
      languages_def INFO_TITLE_def LANGS_def write_str_def)

theorem json_roundtrip_greetings_witness:
  "utf8_encoding (CHR 0xFC) \<and>
   (\<exists>p1 p2 tl d0 d doc d'.
     TransPair_init (VStr ''hello'') (VStr ''hallo'') = Inr p1 \<and>
     TransPair_init (VStr ''bye'') (VStr (''tsch'' @ [CHR 0xFC] @ ''ss'')) = Inr p2 \<and>
     TransList_init [p1, p2] = Inr tl \<and>
     TransDatabase_init (\<lambda>v. []) (VStr ''EN'') (VStr ''DE'') [] = Inr d0 \<and>
     d0 = \<lparr>items = [],
           info = [(''language'', VSeq KList [VStr ''EN'', VStr ''DE'']),
                   (''creator'', VStr ''Daniel Daninsky''),
                   (''script'', VStr ''duobreaker v0.1'')]\<rparr> \<and>
     TransDatabase_add d0 (VStr ''greetings'') (VSeq KTransList tl) = Inr d \<and>
     json_save utf8_encoding d = Inr doc \<and>
     fromfile (\<lambda>v. []) (\<lambda>v. Inl ValueError)
       \<lparr>suffix = ''.json'', content = JsonDocument doc\<rparr> = Inr d' \<and>
     set (map fst (items d')) = set (map fst (items d)) \<and>
     set (map fst (items d)) = {''greetings''} \<and>
     map_of (items d') ''greetings'' = map_of (items d) ''greetings'' \<and>
     map_of (items d) ''greetings'' = Some (VSeq KTransList [p1, p2]) \<and>
     languages d' = languages d \<and>
     languages d = Some (VStr ''EN'', VStr ''DE'') \<and>
     d' = d)"
proof -
  have h: "utf8_encoding (CHR 0xFC)"
    by (simp add: utf8_encoding_def)
  show ?thesis
    by (rule conjI [OF h json_roundtrip_greetings
          [where encodable = utf8_encoding and str_of = "\<lambda>v. []"
             and loads = "\<lambda>v. Inl ValueError", OF h]])
qed

end
